theory Spec2Isabelle
  imports Main "HOL-Library.Word"
begin

unbundle bit_operations_syntax

section \<open>pLEXtrum: a rule-based lexer (plextrum.h)\<close>

subsection \<open>Machine types, pointers and memory\<close>

text \<open>
  \<open>size_t\<close> is a 64-bit unsigned integer, \<open>uint32_t\<close> a 32-bit one and \<open>char\<close> a byte;
  all arithmetic on them wraps around.

  A pointer is either \<open>NULL\<close> or a block together with a byte offset into it. A block is a
  string literal of the program (the literal \<open>"EOF"\<close> of \<open>lexer_next_token\<close> is one), a
  buffer owned by the caller, known by its identity, or the addresses that belong to no
  object. The contents of the caller's buffers are the \<open>memory\<close>; the lexer never writes
  to it. A read through \<open>NULL\<close> or outside a block is undefined in C: \<open>load\<close> returns
  \<open>None\<close> there. Adding an offset to a pointer only moves the offset, also past the end
  of the block, where a later read is undefined. Adding \<open>n\<close> to \<open>NULL\<close> gives the address
  \<open>n\<close>, as the compiled code does: it is \<open>NULL\<close> for \<open>n = 0\<close> only, and otherwise an
  address of no object, where no byte can be read.
\<close>

type_synonym size_t = "64 word"
type_synonym uint32_t = "32 word"
type_synonym byte = "8 word"

datatype block = Literal string | Alloc nat | Unmapped

datatype cptr = Null | Ptr block nat

type_synonym memory = "nat \<Rightarrow> byte list"

fun ptr_add :: "cptr \<Rightarrow> size_t \<Rightarrow> cptr" where
  "ptr_add Null n = (if n = 0 then Null else Ptr Unmapped (unat n))"
| "ptr_add (Ptr b off) n = Ptr b (off + unat n)"

fun block_bytes :: "memory \<Rightarrow> block \<Rightarrow> byte list" where
  "block_bytes mem (Literal s) = map of_char s @ [0]"
| "block_bytes mem (Alloc a) = mem a"
| "block_bytes mem Unmapped = []"

fun load :: "memory \<Rightarrow> cptr \<Rightarrow> byte option" where
  "load mem Null = None"
| "load mem (Ptr b off) =
     (if off < length (block_bytes mem b) then Some (block_bytes mem b ! off) else None)"

text \<open>The result of a call that may run into undefined behaviour.\<close>

datatype 'a result = Undefined | Ret 'a

text \<open>
  \<open>strlen\<close> of the C library: the number of bytes before the first NUL, undefined when the
  block holds no NUL from the pointer on.
\<close>

fun strlen :: "memory \<Rightarrow> cptr \<Rightarrow> size_t result" where
  "strlen mem Null = Undefined"
| "strlen mem (Ptr b off) =
     (let bs = drop off (block_bytes mem b)
      in if 0 \<in> set bs then Ret (of_nat (length (takeWhile (\<lambda>c. c \<noteq> 0) bs))) else Undefined)"

subsection \<open>Core types\<close>

definition TOKEN_FLAG_NONE :: uint32_t where "TOKEN_FLAG_NONE = 0"
definition TOKEN_FLAG_IGNORE :: uint32_t where "TOKEN_FLAG_IGNORE = push_bit 0 1"

definition LEXER_FLAG_NONE :: uint32_t where "LEXER_FLAG_NONE = 0"
definition LEXER_FLAG_KEEP_IGNORABLE :: uint32_t where "LEXER_FLAG_KEEP_IGNORABLE = push_bit 0 1"

definition INTERNAL_TOKEN_EOF :: uint32_t where "INTERNAL_TOKEN_EOF = 0"
definition INTERNAL_TOKEN_ERROR :: uint32_t where "INTERNAL_TOKEN_ERROR = 1"

record token_t =
  kind :: uint32_t
  lexeme :: cptr
  tok_length :: size_t
  tok_filename :: cptr
  tok_line :: size_t
  tok_column :: size_t
  tok_flags :: uint32_t

text \<open>
  A function pointer is the address of a function of the program; the rule table stores
  addresses. The action of a rule may be \<open>NULL\<close>.
\<close>

type_synonym fn_ptr = nat

record lexer_rule_t =
  matcher :: fn_ptr
  action :: "fn_ptr option"

text \<open>The dynamic array \<open>lexer_rules_t\<close> (items, count, capacity) is the list of its items.\<close>

record lexer_t =
  source :: cptr
  source_length :: size_t
  position :: size_t
  line :: size_t
  column :: size_t
  filename :: cptr
  rules :: "lexer_rule_t list"
  error_message :: cptr
  user_context :: cptr
  flags :: uint32_t

text \<open>
  A matcher receives the lexer and the working token by pointer and may change both; it
  returns whether it matched. An action returns nothing. The functions that the addresses of
  a rule stand for are the \<open>program\<close>; they are supplied by the user of the library, and
  are taken here to return and to stay within defined behaviour. They may write every field
  of the lexer, the rule table included.
\<close>

type_synonym token_matcher_fn = "lexer_t \<Rightarrow> token_t \<Rightarrow> bool \<times> lexer_t \<times> token_t"
type_synonym token_action_fn = "lexer_t \<Rightarrow> token_t \<Rightarrow> lexer_t \<times> token_t"

record program =
  matcher_fn :: "fn_ptr \<Rightarrow> token_matcher_fn"
  action_fn :: "fn_ptr \<Rightarrow> token_action_fn"

subsection \<open>Rule management, reset and source inspection\<close>

text \<open>
  In every function the lexer argument is a pointer: \<open>None\<close> is \<open>NULL\<close>. A function that
  writes through the pointer returns the lexer as it leaves it. In \<open>lexer_add_rule\<close> the
  macro \<open>da_append\<close> puts the new rule behind the last one; growing the array is taken to
  succeed.
\<close>

definition lexer_add_rule ::
  "lexer_t option \<Rightarrow> fn_ptr option \<Rightarrow> fn_ptr option \<Rightarrow> bool \<times> lexer_t option" where
  "lexer_add_rule lexer m a =
     (case (lexer, m) of
        (Some l, Some m') \<Rightarrow>
          (True, Some (l\<lparr>rules := rules l @ [\<lparr>matcher = m', action = a\<rparr>]\<rparr>))
      | _ \<Rightarrow> (False, lexer))"

definition lexer_reset ::
  "memory \<Rightarrow> lexer_t option \<Rightarrow> cptr \<Rightarrow> size_t \<Rightarrow> cptr \<Rightarrow> lexer_t option result" where
  "lexer_reset mem lexer src len fname =
     (case lexer of
        None \<Rightarrow> Ret None
      | Some l \<Rightarrow>
          if src = Null then Ret (Some l)
          else
            (case (if len = 0 then strlen mem src else Ret len) of
               Undefined \<Rightarrow> Undefined
             | Ret len' \<Rightarrow>
                 Ret (Some (l\<lparr>source := src, source_length := len', position := 0,
                               filename := fname, line := 1, column := 1\<rparr>))))"

definition lexer_current :: "memory \<Rightarrow> lexer_t option \<Rightarrow> byte result" where
  "lexer_current mem lexer =
     (case lexer of
        None \<Rightarrow> Ret 0
      | Some l \<Rightarrow>
          if position l \<ge> source_length l then Ret 0
          else (case load mem (ptr_add (source l) (position l)) of
                  None \<Rightarrow> Undefined
                | Some c \<Rightarrow> Ret c))"

definition lexer_peek :: "memory \<Rightarrow> lexer_t option \<Rightarrow> size_t \<Rightarrow> byte result" where
  "lexer_peek mem lexer offset =
     (case lexer of
        None \<Rightarrow> Ret 0
      | Some l \<Rightarrow>
          if position l + offset \<ge> source_length l then Ret 0
          else (case load mem (ptr_add (source l) (position l + offset)) of
                  None \<Rightarrow> Undefined
                | Some c \<Rightarrow> Ret c))"

definition lexer_advance :: "memory \<Rightarrow> lexer_t option \<Rightarrow> lexer_t option result" where
  "lexer_advance mem lexer =
     (case lexer of
        None \<Rightarrow> Ret None
      | Some l \<Rightarrow>
          if position l \<ge> source_length l then Ret (Some l)
          else (case load mem (ptr_add (source l) (position l)) of
                  None \<Rightarrow> Undefined
                | Some current \<Rightarrow>
                    let l' = l\<lparr>position := position l + 1\<rparr>
                    in if current = 10
                       then Ret (Some (l'\<lparr>line := line l' + 1, column := 1\<rparr>))
                       else Ret (Some (l'\<lparr>column := column l' + 1\<rparr>))))"

definition lexer_is_eof :: "lexer_t option \<Rightarrow> bool" where
  "lexer_is_eof lexer =
     (case lexer of None \<Rightarrow> True | Some l \<Rightarrow> position l \<ge> source_length l)"

definition lexer_get_context :: "lexer_t option \<Rightarrow> cptr" where
  "lexer_get_context lexer = (case lexer of None \<Rightarrow> Null | Some l \<Rightarrow> user_context l)"

definition lexer_get_position :: "lexer_t option \<Rightarrow> size_t" where
  "lexer_get_position lexer = (case lexer of None \<Rightarrow> 0 | Some l \<Rightarrow> position l)"

definition lexer_get_line :: "lexer_t option \<Rightarrow> size_t" where
  "lexer_get_line lexer = (case lexer of None \<Rightarrow> 0 | Some l \<Rightarrow> line l)"

definition lexer_get_column :: "lexer_t option \<Rightarrow> size_t" where
  "lexer_get_column lexer = (case lexer of None \<Rightarrow> 0 | Some l \<Rightarrow> column l)"

text \<open>
  \<open>lexer_get_lexeme\<close> clamps its local copy of the length and returns the start pointer
  only, so the length does not reach the result.
\<close>

definition lexer_get_lexeme :: "lexer_t option \<Rightarrow> size_t \<Rightarrow> size_t \<Rightarrow> cptr" where
  "lexer_get_lexeme lexer start len =
     (case lexer of
        None \<Rightarrow> Null
      | Some l \<Rightarrow> if start \<ge> source_length l then Null else ptr_add (source l) start)"

subsection \<open>Producing the next token\<close>

definition create_token ::
  "uint32_t \<Rightarrow> cptr \<Rightarrow> size_t \<Rightarrow> size_t \<Rightarrow> size_t \<Rightarrow> cptr \<Rightarrow> uint32_t \<Rightarrow> token_t" where
  "create_token k lx len ln col fname fl =
     \<lparr>kind = k, lexeme = lx, tok_length = len, tok_filename = fname,
      tok_line = ln, tok_column = col, tok_flags = fl\<rparr>"

text \<open>The working token of \<open>lexer_next_token\<close>, initialised once by \<open>token_t token = {0}\<close>.\<close>

definition zero_token :: token_t where
  "zero_token =
     \<lparr>kind = 0, lexeme = Null, tok_length = 0, tok_filename = Null,
      tok_line = 0, tok_column = 0, tok_flags = 0\<rparr>"

definition eof_literal :: cptr where
  "eof_literal = Ptr (Literal ''EOF'') 0"

text \<open>
  Three steps of the loop body. Before each rule attempt the working token gets the line,
  the column and the lexeme start of the attempt origin (lines 341 to 343); its other
  fields are left as they are. After a successful match the action of the rule runs when
  there is one (lines 352 to 354). The token is dropped when it carries the Ignore flag and
  the lexer does not keep ignorable tokens (lines 355 and 356).
\<close>

definition token_at_origin :: "token_t \<Rightarrow> lexer_t \<Rightarrow> size_t \<times> size_t \<times> size_t \<Rightarrow> token_t" where
  "token_at_origin token lexer start =
     (case start of (start_position, start_line, start_column) \<Rightarrow>
        token\<lparr>tok_line := start_line, tok_column := start_column,
              lexeme := ptr_add (source lexer) start_position\<rparr>)"

definition run_action ::
  "program \<Rightarrow> lexer_rule_t \<Rightarrow> lexer_t \<Rightarrow> token_t \<Rightarrow> lexer_t \<times> token_t" where
  "run_action P rule lexer token =
     (case action rule of
        None \<Rightarrow> (lexer, token)
      | Some a \<Rightarrow> action_fn P a lexer token)"

definition ignorable :: "lexer_t \<Rightarrow> token_t \<Rightarrow> bool" where
  "ignorable lexer token \<longleftrightarrow>
     tok_flags token AND TOKEN_FLAG_IGNORE \<noteq> 0 \<and>
     \<not> (flags lexer AND LEXER_FLAG_KEEP_IGNORABLE \<noteq> 0)"

text \<open>
  The two nested loops of \<open>lexer_next_token\<close> (lines 333 to 377). The state of the loops is
  the local variable \<open>reset\<close>, the saved attempt origin (\<open>start_position\<close>, \<open>start_line\<close>,
  \<open>start_column\<close>), the rule index \<open>i\<close>, the lexer and the working token. The loops end
  either at the \<open>return\<close> of line 362, with the token returned, or at the \<open>break\<close> of line
  374, where the code after the loops goes on. An ignorable token sets \<open>reset\<close> and leaves
  the inner loop; the outer loop clears \<open>reset\<close> again and takes a new origin, so the rule
  index starts at 0 there. A scan that restarts forever returns nothing: \<open>scan_rules\<close> is
  \<open>None\<close> then.
\<close>

datatype scan_exit = Matched token_t lexer_t | NoMatch lexer_t

partial_function (option) scan_rules ::
  "program \<Rightarrow> bool \<Rightarrow> size_t \<times> size_t \<times> size_t \<Rightarrow> nat \<Rightarrow> lexer_t \<Rightarrow> token_t \<Rightarrow>
     scan_exit option" where
  "scan_rules P reset start i lexer token =
     (if i < length (rules lexer) then
        (let token1 = token_at_origin token lexer start;
             i1 = (if reset then 0 else i);
             rule = rules lexer ! i1
         in case matcher_fn P (matcher rule) lexer token1 of (matched, lexer2, token2) \<Rightarrow>
              if matched then
                (case run_action P rule lexer2 token2 of (lexer3, token3) \<Rightarrow>
                   if ignorable lexer3 token3
                   then scan_rules P False
                          (position lexer3, line lexer3, column lexer3) 0 lexer3 token3
                   else Some (Matched
                          (create_token (kind token3) (lexeme token3) (tok_length token3)
                             (tok_line token3) (tok_column token3) (tok_filename token3)
                             (tok_flags token3))
                          lexer3))
              else scan_rules P reset start (i1 + 1)
                     (lexer2\<lparr>position := fst start, line := fst (snd start),
                              column := snd (snd start)\<rparr>)
                     token2)
      else if \<not> reset then Some (NoMatch lexer)
      else scan_rules P False (position lexer, line lexer, column lexer) 0 lexer token)"

declare scan_rules.simps [code]

definition lexer_next_token ::
  "memory \<Rightarrow> program \<Rightarrow> lexer_t option \<Rightarrow> (token_t \<times> lexer_t option) result option" where
  "lexer_next_token mem P lexer =
     (case lexer of
        None \<Rightarrow> Some (Ret (create_token INTERNAL_TOKEN_EOF eof_literal 0 0 0 Null 0, None))
      | Some l \<Rightarrow>
          if lexer_is_eof (Some l)
          then Some (Ret (create_token INTERNAL_TOKEN_EOF eof_literal 0
                            (line l) (column l) (filename l) 0, Some l))
          else
            (case scan_rules P False (position l, line l, column l) 0 l zero_token of
               None \<Rightarrow> None
             | Some (Matched t l') \<Rightarrow> Some (Ret (t, Some l'))
             | Some (NoMatch l') \<Rightarrow>
                 if lexer_is_eof (Some l')
                 then Some (Ret (create_token INTERNAL_TOKEN_EOF eof_literal 0
                                   (line l') (column l') (filename l') 0, Some l'))
                 else
                   (let error = create_token INTERNAL_TOKEN_ERROR
                                  (ptr_add (source l') (position l')) 1
                                  (line l') (column l') (filename l') 0
                    in case lexer_advance mem (Some l') of
                         Undefined \<Rightarrow> Some Undefined
                       | Ret l'' \<Rightarrow> Some (Ret (error, l'')))))"

subsection \<open>Notions used to state the properties\<close>

text \<open>
  \<open>failed_pass P start n l tok\<close> runs the first \<open>n\<close> rule attempts of a pass at the origin
  \<open>start\<close>, as the inner loop does, when every one of them fails: it returns the lexer and
  the working token that the loop holds before attempt \<open>n\<close>. It is \<open>None\<close> when one of the
  matchers succeeds or the rule table ends before.
\<close>

fun failed_pass ::
  "program \<Rightarrow> size_t \<times> size_t \<times> size_t \<Rightarrow> nat \<Rightarrow> lexer_t \<Rightarrow> token_t \<Rightarrow>
     (lexer_t \<times> token_t) option" where
  "failed_pass P start 0 l tok = Some (l, tok)"
| "failed_pass P start (Suc n) l tok =
     (case failed_pass P start n l tok of
        None \<Rightarrow> None
      | Some (l', tok') \<Rightarrow>
          if n < length (rules l') then
            (case matcher_fn P (matcher (rules l' ! n)) l' (token_at_origin tok' l' start) of
               (matched, l2, tok2) \<Rightarrow>
                 if matched then None
                 else Some (l2\<lparr>position := fst start, line := fst (snd start),
                               column := snd (snd start)\<rparr>, tok2))
          else None)"

text \<open>
  A caller that asks for \<open>n\<close> tokens in a row, each call on the lexer as the call before
  left it, and collects them.
\<close>

fun call_repeatedly ::
  "memory \<Rightarrow> program \<Rightarrow> nat \<Rightarrow> lexer_t option \<Rightarrow> (token_t list \<times> lexer_t option) result option" where
  "call_repeatedly mem P 0 lexer = Some (Ret ([], lexer))"
| "call_repeatedly mem P (Suc n) lexer =
     (case lexer_next_token mem P lexer of
        None \<Rightarrow> None
      | Some Undefined \<Rightarrow> Some Undefined
      | Some (Ret (t, lexer')) \<Rightarrow>
          (case call_repeatedly mem P n lexer' of
             None \<Rightarrow> None
           | Some Undefined \<Rightarrow> Some Undefined
           | Some (Ret (ts, lexer'')) \<Rightarrow> Some (Ret (t # ts, lexer''))))"

text \<open>
  The source reference of a token (lexeme start and length) lies within the source buffer
  of the lexer: same block, and the bytes of the token are among the \<open>source_length\<close> bytes
  from \<open>source\<close> on.
\<close>

definition within_source :: "lexer_t \<Rightarrow> token_t \<Rightarrow> bool" where
  "within_source lexer token =
     (case (source lexer, lexeme token) of
        (Ptr b off, Ptr b' off') \<Rightarrow>
          b' = b \<and> off \<le> off' \<and>
          off' + unat (tok_length token) \<le> off + unat (source_length lexer)
      | _ \<Rightarrow> False)"

subsection \<open>A small lexer built on the library\<close>

text \<open>
  Matchers and an action, written against the inspection functions as a user of the
  library would: a blank; the two-byte arrow \<open>->\<close>, which consumes the \<open>-\<close> before it looks
  at the next byte; the letter \<open>x\<close>; the word \<open>xy\<close>. None of the matchers writes the flags of
  the token. The action marks a token ignorable.
\<close>

definition match_space :: "memory \<Rightarrow> token_matcher_fn" where
  "match_space mem lexer token =
     (if lexer_current mem (Some lexer) = Ret 32 then
        (case lexer_advance mem (Some lexer) of
           Ret (Some lexer') \<Rightarrow> (True, lexer', token\<lparr>kind := 2, tok_length := 1\<rparr>)
         | _ \<Rightarrow> (False, lexer, token))
      else (False, lexer, token))"

definition match_arrow :: "memory \<Rightarrow> token_matcher_fn" where
  "match_arrow mem lexer token =
     (if lexer_current mem (Some lexer) = Ret 45 then
        (case lexer_advance mem (Some lexer) of
           Ret (Some lexer') \<Rightarrow>
             if lexer_current mem (Some lexer') = Ret 62 then
               (case lexer_advance mem (Some lexer') of
                  Ret (Some lexer'') \<Rightarrow> (True, lexer'', token\<lparr>kind := 5, tok_length := 2\<rparr>)
                | _ \<Rightarrow> (False, lexer', token))
             else (False, lexer', token)
         | _ \<Rightarrow> (False, lexer, token))
      else (False, lexer, token))"

definition match_letter :: "memory \<Rightarrow> token_matcher_fn" where
  "match_letter mem lexer token =
     (if lexer_current mem (Some lexer) = Ret 120 then
        (case lexer_advance mem (Some lexer) of
           Ret (Some lexer') \<Rightarrow> (True, lexer', token\<lparr>kind := 3, tok_length := 1\<rparr>)
         | _ \<Rightarrow> (False, lexer, token))
      else (False, lexer, token))"

definition match_word :: "memory \<Rightarrow> token_matcher_fn" where
  "match_word mem lexer token =
     (if lexer_current mem (Some lexer) = Ret 120 \<and> lexer_peek mem (Some lexer) 1 = Ret 121 then
        (case lexer_advance mem (Some lexer) of
           Ret lexer' \<Rightarrow>
             (case lexer_advance mem lexer' of
                Ret (Some lexer'') \<Rightarrow> (True, lexer'', token\<lparr>kind := 4, tok_length := 2\<rparr>)
              | _ \<Rightarrow> (False, lexer, token))
         | _ \<Rightarrow> (False, lexer, token))
      else (False, lexer, token))"

text \<open>
  A matcher that takes any two bytes as one token, without looking whether two bytes are
  left: \<open>lexer_advance\<close> does nothing at the end of the input.
\<close>

definition match_pair :: "memory \<Rightarrow> token_matcher_fn" where
  "match_pair mem lexer token =
     (case lexer_advance mem (Some lexer) of
        Ret lexer' \<Rightarrow>
          (case lexer_advance mem lexer' of
             Ret (Some lexer'') \<Rightarrow> (True, lexer'', token\<lparr>kind := 6, tok_length := 2\<rparr>)
           | _ \<Rightarrow> (False, lexer, token))
      | _ \<Rightarrow> (False, lexer, token))"

text \<open>The letter \<open>x\<close> again, by a matcher that writes all of kind, length and flags.\<close>

definition match_ident :: "memory \<Rightarrow> token_matcher_fn" where
  "match_ident mem lexer token =
     (if lexer_current mem (Some lexer) = Ret 120 then
        (case lexer_advance mem (Some lexer) of
           Ret (Some lexer') \<Rightarrow>
             (True, lexer', token\<lparr>kind := 7, tok_length := 1, tok_flags := TOKEN_FLAG_NONE\<rparr>)
         | _ \<Rightarrow> (False, lexer, token))
      else (False, lexer, token))"

definition mark_ignorable :: token_action_fn where
  "mark_ignorable lexer token = (lexer, token\<lparr>tok_flags := tok_flags token OR TOKEN_FLAG_IGNORE\<rparr>)"

definition sample_program :: "memory \<Rightarrow> program" where
  "sample_program mem =
     \<lparr>matcher_fn = (\<lambda>a. if a = 0 then match_space mem
                         else if a = 1 then match_arrow mem
                         else if a = 2 then match_letter mem
                         else if a = 3 then match_word mem
                         else if a = 4 then match_pair mem
                         else match_ident mem),
      action_fn = (\<lambda>a. mark_ignorable)\<rparr>"

text \<open>Buffer 0 holds \<open>"  x"\<close>, buffer 1 holds \<open>"-xy"\<close>, each with its terminating NUL.\<close>

definition sample_memory :: memory where
  "sample_memory a = (if a = 0 then [32, 32, 120, 0] else [45, 120, 121, 0])"

definition blank_lexer :: lexer_t where
  "blank_lexer =
     \<lparr>source = Ptr (Alloc 0) 0, source_length = 3, position = 0, line = 1, column = 1,
      filename = Ptr (Literal ''blank.txt'') 0,
      rules = [\<lparr>matcher = 0, action = Some 0\<rparr>, \<lparr>matcher = 2, action = None\<rparr>],
      error_message = Null, user_context = Null, flags = LEXER_FLAG_NONE\<rparr>"

definition arrow_lexer :: lexer_t where
  "arrow_lexer =
     \<lparr>source = Ptr (Alloc 1) 0, source_length = 3, position = 0, line = 1, column = 1,
      filename = Ptr (Literal ''arrow.txt'') 0,
      rules = [\<lparr>matcher = 1, action = None\<rparr>, \<lparr>matcher = 2, action = None\<rparr>,
               \<lparr>matcher = 3, action = None\<rparr>],
      error_message = Null, user_context = Null, flags = LEXER_FLAG_NONE\<rparr>"

text \<open>The last byte of buffer 1 under the two-byte matcher alone.\<close>

definition pair_lexer :: lexer_t where
  "pair_lexer = arrow_lexer\<lparr>position := 2, column := 3, rules := [\<lparr>matcher = 4, action = None\<rparr>]\<rparr>"

text \<open>
  Buffer 1 from its second byte on, under two rules that both match there: the letter, with
  the action that marks its token ignorable, and the word.
\<close>

definition marked_letter_lexer :: lexer_t where
  "marked_letter_lexer =
     arrow_lexer\<lparr>position := 1, column := 2,
                  rules := [\<lparr>matcher = 2, action = Some 0\<rparr>, \<lparr>matcher = 3, action = None\<rparr>]\<rparr>"




section \<open>Properties\<close>

subsection \<open>Registration order\<close>

lemma lexer_add_rule_appends:
  "lexer_add_rule (Some l) (Some m) a =
     (True, Some (l\<lparr>rules := rules l @ [\<lparr>matcher = m, action = a\<rparr>]\<rparr>))"
  by (simp add: lexer_add_rule_def)

lemma lexer_add_rule_keeps_earlier:
  assumes "lexer_add_rule (Some l) m a = (ok, Some l')" and "i < length (rules l)"
  shows "rules l' ! i = rules l ! i"
  using assms by (auto simp add: lexer_add_rule_def nth_append split: option.splits)

lemma lexer_add_rule_rejects:
  "lexer_add_rule None m a = (False, None)" "lexer_add_rule lexer None a = (False, lexer)"
  by (simp_all add: lexer_add_rule_def split: option.splits)

subsection \<open>Steps of the scan\<close>

lemma create_token_copy:
  "create_token (kind t) (lexeme t) (tok_length t) (tok_line t) (tok_column t)
     (tok_filename t) (tok_flags t) = t"
  by (simp add: create_token_def)

lemma scan_rules_failure:
  assumes "i < length (rules l)"
    and "matcher_fn P (matcher (rules l ! i)) l (token_at_origin tok l start) = (False, l2, tok2)"
  shows "scan_rules P False start i l tok =
           scan_rules P False start (Suc i)
             (l2\<lparr>position := fst start, line := fst (snd start), column := snd (snd start)\<rparr>) tok2"
  using assms by (subst scan_rules.simps) simp

lemma scan_rules_success:
  assumes "i < length (rules l)"
    and "matcher_fn P (matcher (rules l ! i)) l (token_at_origin tok l start) = (True, l2, tok2)"
    and "run_action P (rules l ! i) l2 tok2 = (l3, tok3)"
  shows "scan_rules P False start i l tok =
           (if ignorable l3 tok3
            then scan_rules P False (position l3, line l3, column l3) 0 l3 tok3
            else Some (Matched tok3 l3))"
  using assms by (subst scan_rules.simps) (simp add: create_token_copy)

lemma scan_rules_exhausted:
  "length (rules l) \<le> i \<Longrightarrow> scan_rules P False start i l tok = Some (NoMatch l)"
  by (subst scan_rules.simps) simp

lemma failed_pass_scan:
  "failed_pass P start n l tok = Some (l', tok') \<Longrightarrow>
     scan_rules P False start 0 l tok = scan_rules P False start n l' tok'"
proof (induction n arbitrary: l' tok')
  case 0
  then show ?case by simp
next
  case (Suc n)
  from Suc.prems obtain l1 tok1 where prev: "failed_pass P start n l tok = Some (l1, tok1)"
    by (auto split: option.splits)
  obtain m l2 tok2 where run:
    "matcher_fn P (matcher (rules l1 ! n)) l1 (token_at_origin tok1 l1 start) = (m, l2, tok2)"
    by (metis prod_cases3)
  from Suc.prems prev run have n: "n < length (rules l1)" and m: "\<not> m"
    and l': "l' = l2\<lparr>position := fst start, line := fst (snd start), column := snd (snd start)\<rparr>"
    and tok': "tok' = tok2"
    by (auto split: if_splits)
  from run m
  have "matcher_fn P (matcher (rules l1 ! n)) l1 (token_at_origin tok1 l1 start) = (False, l2, tok2)"
    by simp
  from scan_rules_failure [OF n this] Suc.IH [OF prev] l' tok' show ?case by simp
qed

lemma failed_pass_origin:
  "failed_pass P (position l, line l, column l) n l tok = Some (l', tok') \<Longrightarrow>
     position l' = position l \<and> line l' = line l \<and> column l' = column l"
  by (cases n) (auto split: option.splits if_splits prod.splits)

lemma token_at_origin_eq:
  "token_at_origin tok l (p, ln, c) =
     tok\<lparr>tok_line := ln, tok_column := c, lexeme := ptr_add (source l) p\<rparr>"
  by (simp add: token_at_origin_def)


lemma scan_rules_first_success:
  assumes "failed_pass P (p, ln, c) i l tok = Some (l1, tok1)"
    and "i < length (rules l1)"
    and "matcher_fn P (matcher (rules l1 ! i)) l1
           (tok1\<lparr>tok_line := ln, tok_column := c, lexeme := ptr_add (source l1) p\<rparr>) =
           (True, l2, tok2)"
    and "run_action P (rules l1 ! i) l2 tok2 = (l3, tok3)"
  shows "scan_rules P False (p, ln, c) 0 l tok =
           (if ignorable l3 tok3
            then scan_rules P False (position l3, line l3, column l3) 0 l3 tok3
            else Some (Matched tok3 l3))"
proof -
  from assms(3)
  have "matcher_fn P (matcher (rules l1 ! i)) l1 (token_at_origin tok1 l1 (p, ln, c)) =
          (True, l2, tok2)"
    by (simp add: token_at_origin_eq)
  from scan_rules_success [OF assms(2) this assms(4)] failed_pass_scan [OF assms(1)]
  show ?thesis
    by simp
qed

lemma scan_rules_all_failed:
  assumes "failed_pass P start n l tok = Some (l', tok')" and "length (rules l') \<le> n"
  shows "scan_rules P False start 0 l tok = Some (NoMatch l')"
  using failed_pass_scan [OF assms(1)] scan_rules_exhausted [OF assms(2)] by simp


lemma next_token_no_match:
  assumes "\<not> lexer_is_eof (Some l)"
    and "scan_rules P False (position l, line l, column l) 0 l zero_token = Some (NoMatch l')"
  shows "lexer_next_token mem P (Some l) =
           (if lexer_is_eof (Some l')
            then Some (Ret (\<lparr>kind = INTERNAL_TOKEN_EOF, lexeme = Ptr (Literal ''EOF'') 0,
                             tok_length = 0, tok_filename = filename l', tok_line = line l',
                             tok_column = column l', tok_flags = 0\<rparr>, Some l'))
            else (case lexer_advance mem (Some l') of
                    Undefined \<Rightarrow> Some Undefined
                  | Ret l'' \<Rightarrow>
                      Some (Ret (\<lparr>kind = INTERNAL_TOKEN_ERROR,
                                  lexeme = ptr_add (source l') (position l'), tok_length = 1,
                                  tok_filename = filename l', tok_line = line l',
                                  tok_column = column l', tok_flags = 0\<rparr>, l''))))"
  using assms by (simp add: lexer_next_token_def create_token_def eof_literal_def)

subsection \<open>Ignorable tokens\<close>



subsection \<open>Backtracking after a failed matcher\<close>



subsection \<open>End of input and the null lexer\<close>

text \<open>
  Claim C5. When the cursor of the lexer is at or past the end of the source buffer,
  \<open>lexer_next_token\<close> returns an EOF token that carries the line, the column and the file
  name of the lexer, and leaves the lexer as it is. So every further call returns the same
  EOF token: \<open>n\<close> calls in a row return \<open>n\<close> EOF tokens, for every \<open>n\<close>.
\<close>

theorem next_token_at_eof:
  assumes "source_length l \<le> position l"
  shows "lexer_next_token mem P (Some l) =
           Some (Ret (\<lparr>kind = INTERNAL_TOKEN_EOF, lexeme = Ptr (Literal ''EOF'') 0,
                       tok_length = 0, tok_filename = filename l, tok_line = line l,
                       tok_column = column l, tok_flags = 0\<rparr>, Some l)) \<and>
         call_repeatedly mem P n (Some l) =
           Some (Ret (replicate n
                        \<lparr>kind = INTERNAL_TOKEN_EOF, lexeme = Ptr (Literal ''EOF'') 0,
                         tok_length = 0, tok_filename = filename l, tok_line = line l,
                         tok_column = column l, tok_flags = 0\<rparr>, Some l))"
proof -
  have one: "lexer_next_token mem P (Some l) =
           Some (Ret (\<lparr>kind = INTERNAL_TOKEN_EOF, lexeme = Ptr (Literal ''EOF'') 0,
                       tok_length = 0, tok_filename = filename l, tok_line = line l,
                       tok_column = column l, tok_flags = 0\<rparr>, Some l))"
    using assms
    by (simp add: lexer_next_token_def lexer_is_eof_def create_token_def eof_literal_def)
  have "call_repeatedly mem P n (Some l) =
           Some (Ret (replicate n
                        \<lparr>kind = INTERNAL_TOKEN_EOF, lexeme = Ptr (Literal ''EOF'') 0,
                         tok_length = 0, tok_filename = filename l, tok_line = line l,
                         tok_column = column l, tok_flags = 0\<rparr>, Some l))"
    by (induction n) (simp_all add: one)
  with one show ?thesis
    by simp
qed

theorem next_token_at_eof_witness:
  "source_length (blank_lexer\<lparr>position := 3, column := 4\<rparr>) \<le>
     position (blank_lexer\<lparr>position := 3, column := 4\<rparr>) \<and>
   call_repeatedly sample_memory (sample_program sample_memory) 2
     (Some (blank_lexer\<lparr>position := 3, column := 4\<rparr>)) =
     Some (Ret ([\<lparr>kind = 0, lexeme = Ptr (Literal ''EOF'') 0, tok_length = 0,
                  tok_filename = Ptr (Literal ''blank.txt'') 0, tok_line = 1, tok_column = 4,
                  tok_flags = 0\<rparr>,
                 \<lparr>kind = 0, lexeme = Ptr (Literal ''EOF'') 0, tok_length = 0,
                  tok_filename = Ptr (Literal ''blank.txt'') 0, tok_line = 1, tok_column = 4,
                  tok_flags = 0\<rparr>],
                Some (blank_lexer\<lparr>position := 3, column := 4\<rparr>)))"
proof -
  let ?l = "blank_lexer\<lparr>position := 3, column := 4\<rparr>"
  have 1: "source_length ?l \<le> position ?l"
    by code_simp
  have 2: "filename ?l = Ptr (Literal ''blank.txt'') 0" "line ?l = 1" "column ?l = 4"
    by code_simp+
  have 3: "replicate 2 x = [x, x]" for x :: token_t
    by (simp add: numeral_2_eq_2)
  from next_token_at_eof [OF 1, of sample_memory "sample_program sample_memory" 2] 2 3
  have "call_repeatedly sample_memory (sample_program sample_memory) 2 (Some ?l) =
     Some (Ret ([\<lparr>kind = 0, lexeme = Ptr (Literal ''EOF'') 0, tok_length = 0,
                  tok_filename = Ptr (Literal ''blank.txt'') 0, tok_line = 1, tok_column = 4,
                  tok_flags = 0\<rparr>,
                 \<lparr>kind = 0, lexeme = Ptr (Literal ''EOF'') 0, tok_length = 0,
                  tok_filename = Ptr (Literal ''blank.txt'') 0, tok_line = 1, tok_column = 4,
                  tok_flags = 0\<rparr>], Some ?l))"
    by (simp add: INTERNAL_TOKEN_EOF_def del: call_repeatedly.simps)
  with 1 show ?thesis
    by (intro conjI)
qed

text \<open>
  Claim C10. On a null lexer the query operations return a default: \<open>lexer_next_token\<close>
  returns an EOF token with line 0, column 0 and a null file name, \<open>lexer_is_eof\<close> is true,
  and \<open>lexer_get_position\<close>, \<open>lexer_get_line\<close> and \<open>lexer_get_column\<close> return 0. The other
  queries do the same: \<open>lexer_current\<close> and \<open>lexer_peek\<close> return the byte 0,
  \<open>lexer_get_context\<close> and \<open>lexer_get_lexeme\<close> return a null pointer.
\<close>

theorem null_lexer_defaults:
  "lexer_next_token mem P None =
     Some (Ret (\<lparr>kind = INTERNAL_TOKEN_EOF, lexeme = Ptr (Literal ''EOF'') 0, tok_length = 0,
                 tok_filename = Null, tok_line = 0, tok_column = 0, tok_flags = 0\<rparr>, None)) \<and>
   lexer_is_eof None \<and>
   lexer_get_position None = 0 \<and> lexer_get_line None = 0 \<and> lexer_get_column None = 0 \<and>
   lexer_current mem None = Ret 0 \<and> lexer_peek mem None k = Ret 0 \<and>
   lexer_get_context None = Null \<and> lexer_get_lexeme None start len = Null"
  by (simp add: lexer_next_token_def lexer_is_eof_def create_token_def eof_literal_def
      lexer_get_position_def lexer_get_line_def lexer_get_column_def lexer_current_def
      lexer_peek_def lexer_get_context_def lexer_get_lexeme_def)

subsection \<open>Rule order\<close>

text \<open>
  Claim C2 says that, when the matchers of several rules could succeed at a position,
  \<open>lexer_next_token\<close> returns the token of the earliest registered rule whose matcher
  succeeds. As stated this fails when that token is ignorable and the lexer drops it. At the
  second byte of \<open>"-xy"\<close> the letter rule comes first and succeeds, the word rule would
  succeed as well, the action marks the token of the letter ignorable, and the call returns
  the ERROR token for the byte \<open>y\<close> behind it.
\<close>

theorem first_match_dropped_when_ignorable:
  "matcher_fn (sample_program sample_memory) (matcher (rules marked_letter_lexer ! 0))
     marked_letter_lexer (token_at_origin zero_token marked_letter_lexer (1, 1, 2)) =
     (True, marked_letter_lexer\<lparr>position := 2, column := 3\<rparr>,
      zero_token\<lparr>kind := 3, lexeme := Ptr (Alloc 1) 1, tok_length := 1, tok_line := 1,
                  tok_column := 2\<rparr>) \<and>
   run_action (sample_program sample_memory) (rules marked_letter_lexer ! 0)
     (marked_letter_lexer\<lparr>position := 2, column := 3\<rparr>)
     (zero_token\<lparr>kind := 3, lexeme := Ptr (Alloc 1) 1, tok_length := 1, tok_line := 1,
                  tok_column := 2\<rparr>) =
     (marked_letter_lexer\<lparr>position := 2, column := 3\<rparr>,
      zero_token\<lparr>kind := 3, lexeme := Ptr (Alloc 1) 1, tok_length := 1, tok_line := 1,
                  tok_column := 2, tok_flags := TOKEN_FLAG_IGNORE\<rparr>) \<and>
   fst (matcher_fn (sample_program sample_memory) (matcher (rules marked_letter_lexer ! 1))
          marked_letter_lexer (token_at_origin zero_token marked_letter_lexer (1, 1, 2))) \<and>
   lexer_next_token sample_memory (sample_program sample_memory) (Some marked_letter_lexer) =
     Some (Ret (\<lparr>kind = 1, lexeme = Ptr (Alloc 1) 2, tok_length = 1,
                 tok_filename = Ptr (Literal ''arrow.txt'') 0, tok_line = 1, tok_column = 3,
                 tok_flags = 0\<rparr>,
                Some (marked_letter_lexer\<lparr>position := 3, column := 4\<rparr>)))"
  by code_simp

text \<open>
  Claim C2, amended. Rules are tried in the order of the rule table, which is the order of
  registration. When the rules before rule \<open>i\<close> fail at an origin and the matcher of rule
  \<open>i\<close> succeeds, the pass ends with the token of rule \<open>i\<close>, whatever the later rules would
  match and however long their matches would be: they are not run. The token of rule \<open>i\<close>
  is what \<open>lexer_next_token\<close> returns, unless it is an ignorable token that the lexer
  drops, in which case the scan starts again behind it.
\<close>

theorem first_matching_rule_wins:
  assumes "failed_pass P start i l tok = Some (l1, tok1)"
    and "i < length (rules l1)"
    and "matcher_fn P (matcher (rules l1 ! i)) l1 (token_at_origin tok1 l1 start) =
           (True, l2, tok2)"
    and "run_action P (rules l1 ! i) l2 tok2 = (l3, tok3)"
  shows "scan_rules P False start 0 l tok =
           (if ignorable l3 tok3
            then scan_rules P False (position l3, line l3, column l3) 0 l3 tok3
            else Some (Matched tok3 l3)) \<and>
         (\<not> lexer_is_eof (Some l) \<and> start = (position l, line l, column l) \<and>
          tok = zero_token \<and> \<not> ignorable l3 tok3 \<longrightarrow>
            lexer_next_token mem P (Some l) = Some (Ret (tok3, Some l3)))"
proof -
  have scan: "scan_rules P False start 0 l tok =
                (if ignorable l3 tok3
                 then scan_rules P False (position l3, line l3, column l3) 0 l3 tok3
                 else Some (Matched tok3 l3))"
    using failed_pass_scan [OF assms(1)] scan_rules_success [OF assms(2-4)] by simp
  then show ?thesis
    by (auto simp add: lexer_next_token_def)
qed

theorem first_matching_rule_wins_witness:
  "failed_pass (sample_program sample_memory) (1, 1, 2) 1
     (arrow_lexer\<lparr>position := 1, column := 2\<rparr>) zero_token =
     Some (arrow_lexer\<lparr>position := 1, column := 2\<rparr>,
           zero_token\<lparr>lexeme := Ptr (Alloc 1) 1, tok_line := 1, tok_column := 2\<rparr>) \<and>
   fst (match_word sample_memory (arrow_lexer\<lparr>position := 1, column := 2\<rparr>)
          (zero_token\<lparr>lexeme := Ptr (Alloc 1) 1, tok_line := 1, tok_column := 2\<rparr>)) \<and>
   \<not> lexer_is_eof (Some (arrow_lexer\<lparr>position := 1, column := 2\<rparr>)) \<and>
   lexer_next_token sample_memory (sample_program sample_memory)
     (Some (arrow_lexer\<lparr>position := 1, column := 2\<rparr>)) =
     Some (Ret (zero_token\<lparr>kind := 3, lexeme := Ptr (Alloc 1) 1, tok_length := 1,
                            tok_line := 1, tok_column := 2\<rparr>,
                Some (arrow_lexer\<lparr>position := 2, column := 3\<rparr>)))"
proof -
  let ?P = "sample_program sample_memory"
  let ?l = "arrow_lexer\<lparr>position := 1, column := 2\<rparr>"
  let ?t1 = "zero_token\<lparr>lexeme := Ptr (Alloc 1) 1, tok_line := 1, tok_column := 2\<rparr>"
  let ?l2 = "arrow_lexer\<lparr>position := 2, column := 3\<rparr>"
  let ?t2 = "zero_token\<lparr>kind := 3, lexeme := Ptr (Alloc 1) 1, tok_length := 1,
                        tok_line := 1, tok_column := 2\<rparr>"
  have 1: "failed_pass ?P (1, 1, 2) 1 ?l zero_token = Some (?l, ?t1)"
    by code_simp
  have 2: "1 < length (rules ?l)"
    by code_simp
  have 3: "matcher_fn ?P (matcher (rules ?l ! 1)) ?l (token_at_origin ?t1 ?l (1, 1, 2)) =
             (True, ?l2, ?t2)"
    by code_simp
  have 4: "run_action ?P (rules ?l ! 1) ?l2 ?t2 = (?l2, ?t2)"
    by code_simp
  have 5: "\<not> lexer_is_eof (Some ?l)" "\<not> ignorable ?l2 ?t2"
    "(1, 1, 2) = (position ?l, line ?l, column ?l)"
    by code_simp+
  have 6: "fst (match_word sample_memory ?l ?t1)"
    by code_simp
  from first_matching_rule_wins [OF 1 2 3 4, of sample_memory] 5
  have 7: "lexer_next_token sample_memory ?P (Some ?l) = Some (Ret (?t2, Some ?l2))"
    by blast
  from 1 6 5(1) 7 show ?thesis
    by (intro conjI)
qed

subsection \<open>Unmatched input\<close>

text \<open>
  Claim C4. When the lexer is not at the end of its input and the matcher of every rule
  fails at the current origin, \<open>lexer_next_token\<close> returns an ERROR token whose source
  reference is the one byte at the current position, with the current line and column, and
  moves the position forward by one byte: the position grows by exactly one, without
  wrapping around. The failed matchers leave the position, the line and the column at the
  origin; the lexer \<open>l'\<close> they leave may differ from \<open>l\<close> in the fields that the loop does
  not restore, so the end-of-input test and the read of the byte are stated on \<open>l'\<close>.
\<close>

theorem unmatched_byte_yields_error_token:
  assumes "\<not> lexer_is_eof (Some l)"
    and "failed_pass P (position l, line l, column l) n l zero_token = Some (l', tok')"
    and "length (rules l') \<le> n"
    and "\<not> lexer_is_eof (Some l')"
    and "load mem (ptr_add (source l') (position l')) = Some c"
  shows "lexer_next_token mem P (Some l) =
           Some (Ret (\<lparr>kind = INTERNAL_TOKEN_ERROR,
                       lexeme = ptr_add (source l') (position l), tok_length = 1,
                       tok_filename = filename l', tok_line = line l, tok_column = column l,
                       tok_flags = 0\<rparr>,
                      Some (l'\<lparr>position := position l + 1,
                                line := (if c = 10 then line l + 1 else line l),
                                column := (if c = 10 then 1 else column l + 1)\<rparr>))) \<and>
         unat (position l + 1) = unat (position l) + 1"
proof -
  have scan: "scan_rules P False (position l, line l, column l) 0 l zero_token =
                Some (NoMatch l')"
    using failed_pass_scan [OF assms(2)] scan_rules_exhausted [OF assms(3)] by simp
  have origin: "position l' = position l" "line l' = line l" "column l' = column l"
    using failed_pass_origin [OF assms(2)] by simp_all
  from assms(4) origin have less: "position l < source_length l'"
    by (simp add: lexer_is_eof_def)
  then have "unat (position l + 1) = unat (position l) + 1"
    by unat_arith
  moreover have "lexer_next_token mem P (Some l) =
           Some (Ret (\<lparr>kind = INTERNAL_TOKEN_ERROR,
                       lexeme = ptr_add (source l') (position l), tok_length = 1,
                       tok_filename = filename l', tok_line = line l, tok_column = column l,
                       tok_flags = 0\<rparr>,
                      Some (l'\<lparr>position := position l + 1,
                                line := (if c = 10 then line l + 1 else line l),
                                column := (if c = 10 then 1 else column l + 1)\<rparr>)))"
    using assms(1,4,5) scan origin
    by (simp add: lexer_next_token_def lexer_advance_def lexer_is_eof_def create_token_def)
  ultimately show ?thesis
    by simp
qed

theorem unmatched_byte_yields_error_token_witness:
  "\<not> lexer_is_eof (Some arrow_lexer) \<and>
   failed_pass (sample_program sample_memory) (0, 1, 1) 3 arrow_lexer zero_token =
     Some (arrow_lexer, zero_token\<lparr>lexeme := Ptr (Alloc 1) 0, tok_line := 1, tok_column := 1\<rparr>) \<and>
   load sample_memory (ptr_add (source arrow_lexer) (position arrow_lexer)) = Some 45 \<and>
   lexer_next_token sample_memory (sample_program sample_memory) (Some arrow_lexer) =
     Some (Ret (\<lparr>kind = 1, lexeme = Ptr (Alloc 1) 0, tok_length = 1,
                 tok_filename = Ptr (Literal ''arrow.txt'') 0, tok_line = 1, tok_column = 1,
                 tok_flags = 0\<rparr>,
                Some (arrow_lexer\<lparr>position := 1, column := 2\<rparr>)))"
proof -
  let ?P = "sample_program sample_memory"
  let ?t = "zero_token\<lparr>lexeme := Ptr (Alloc 1) 0, tok_line := 1, tok_column := 1\<rparr>"
  have 1: "\<not> lexer_is_eof (Some arrow_lexer)"
    by code_simp
  have 2: "failed_pass ?P (position arrow_lexer, line arrow_lexer, column arrow_lexer) 3
             arrow_lexer zero_token = Some (arrow_lexer, ?t)"
    by code_simp
  have 3: "length (rules arrow_lexer) \<le> 3"
    by code_simp
  have 4: "load sample_memory (ptr_add (source arrow_lexer) (position arrow_lexer)) = Some 45"
    by code_simp
  have 5: "position arrow_lexer = 0" "line arrow_lexer = 1" "column arrow_lexer = 1"
    "source arrow_lexer = Ptr (Alloc 1) 0" "filename arrow_lexer = Ptr (Literal ''arrow.txt'') 0"
    by code_simp+
  have 6: "arrow_lexer\<lparr>position := 1, line := 1, column := 2\<rparr> =
             arrow_lexer\<lparr>position := 1, column := 2\<rparr>"
    by code_simp
  from unmatched_byte_yields_error_token [OF 1 2 3 1 4] 5 6
  have 7: "lexer_next_token sample_memory ?P (Some arrow_lexer) =
             Some (Ret (\<lparr>kind = 1, lexeme = Ptr (Alloc 1) 0, tok_length = 1,
                         tok_filename = Ptr (Literal ''arrow.txt'') 0, tok_line = 1,
                         tok_column = 1, tok_flags = 0\<rparr>,
                        Some (arrow_lexer\<lparr>position := 1, column := 2\<rparr>)))"
    by (simp add: INTERNAL_TOKEN_ERROR_def)
  from 2 5 have 8: "failed_pass ?P (0, 1, 1) 3 arrow_lexer zero_token = Some (arrow_lexer, ?t)"
    by (simp only:)
  from 1 8 4 7 show ?thesis
    by (intro conjI)
qed

subsection \<open>Source references of tokens\<close>

text \<open>
  Claim C6 says that the source reference of every token that \<open>lexer_next_token\<close>
  produces lies within the source buffer, for EOF and ERROR tokens as for the tokens of
  matchers. This fails twice on the last byte of \<open>"-xy"\<close> under the two-byte matcher: the
  token of the matcher starts at the last byte and has length 2, which the lexer returns
  unchecked, and the EOF token of the next call refers to the string literal \<open>"EOF"\<close>, not
  to the buffer.
\<close>

theorem token_reference_outside_source:
  "lexer_next_token sample_memory (sample_program sample_memory) (Some pair_lexer) =
     Some (Ret (zero_token\<lparr>kind := 6, lexeme := Ptr (Alloc 1) 2, tok_length := 2,
                            tok_line := 1, tok_column := 3\<rparr>,
                Some (pair_lexer\<lparr>position := 3, column := 4\<rparr>))) \<and>
   \<not> within_source (pair_lexer\<lparr>position := 3, column := 4\<rparr>)
       (zero_token\<lparr>kind := 6, lexeme := Ptr (Alloc 1) 2, tok_length := 2,
                    tok_line := 1, tok_column := 3\<rparr>) \<and>
   lexer_next_token sample_memory (sample_program sample_memory)
     (Some (pair_lexer\<lparr>position := 3, column := 4\<rparr>)) =
     Some (Ret (\<lparr>kind = 0, lexeme = Ptr (Literal ''EOF'') 0, tok_length = 0,
                 tok_filename = Ptr (Literal ''arrow.txt'') 0, tok_line = 1, tok_column = 4,
                 tok_flags = 0\<rparr>,
                Some (pair_lexer\<lparr>position := 3, column := 4\<rparr>))) \<and>
   \<not> within_source (pair_lexer\<lparr>position := 3, column := 4\<rparr>)
       \<lparr>kind = 0, lexeme = Ptr (Literal ''EOF'') 0, tok_length = 0,
        tok_filename = Ptr (Literal ''arrow.txt'') 0, tok_line = 1, tok_column = 4,
        tok_flags = 0\<rparr>"
  by code_simp

text \<open>
  Claim C6, amended. The tokens that the lexer makes itself, at the end of the input on
  entry or after a scan in which no rule matched, are these: at the end of the input, an
  EOF token whose lexeme is the string literal \<open>"EOF"\<close> with length 0; otherwise an ERROR
  token, whose source reference, one byte at the position of the lexer, lies within the
  source buffer of the lexer, before and after the call, when the source pointer is not
  null.
\<close>

theorem synthesized_token_reference:
  assumes "lexer_next_token mem P (Some l) = Some (Ret (t, l'))"
    and "lexer_is_eof (Some l) \<and> l1 = l \<or>
         \<not> lexer_is_eof (Some l) \<and>
         scan_rules P False (position l, line l, column l) 0 l zero_token = Some (NoMatch l1)"
    and "source l1 \<noteq> Null"
  shows "if lexer_is_eof (Some l1)
         then kind t = INTERNAL_TOKEN_EOF \<and> lexeme t = Ptr (Literal ''EOF'') 0 \<and>
              tok_length t = 0 \<and> l' = Some l1
         else kind t = INTERNAL_TOKEN_ERROR \<and> tok_length t = 1 \<and> within_source l1 t \<and>
              (case l' of None \<Rightarrow> False | Some l2 \<Rightarrow> within_source l2 t)"
proof (cases "lexer_is_eof (Some l1)")
  case True
  with assms(1,2) show ?thesis
    by (auto simp add: lexer_next_token_def create_token_def eof_literal_def)
next
  case False
  with assms(2) have entry: "\<not> lexer_is_eof (Some l)"
    and scan: "scan_rules P False (position l, line l, column l) 0 l zero_token = Some (NoMatch l1)"
    by auto
  from False have less: "position l1 < source_length l1"
    by (simp add: lexer_is_eof_def)
  then have "unat (position l1) + 1 \<le> unat (source_length l1)"
    by unat_arith
  moreover from assms(3) obtain b off where src: "source l1 = Ptr b off"
    by (cases "source l1") simp_all
  ultimately have inside:
    "within_source l1 (create_token INTERNAL_TOKEN_ERROR (ptr_add (source l1) (position l1)) 1
                         (line l1) (column l1) (filename l1) 0)"
    by (simp add: within_source_def create_token_def)
  from assms(1) entry scan False less obtain l2 where
    t: "t = create_token INTERNAL_TOKEN_ERROR (ptr_add (source l1) (position l1)) 1
              (line l1) (column l1) (filename l1) 0"
    and l': "l' = Some l2" and same: "source l2 = source l1" "source_length l2 = source_length l1"
    by (auto simp add: lexer_next_token_def lexer_advance_def lexer_is_eof_def Let_def
        split: option.splits if_splits)
  have "within_source l2 t = within_source l1 t"
    unfolding within_source_def same by (rule refl)
  with inside t l' False show ?thesis
    by (simp add: create_token_def)
qed


theorem synthesized_token_reference_witness:
  "\<not> lexer_is_eof (Some arrow_lexer) \<and>
   scan_rules (sample_program sample_memory) False (0, 1, 1) 0 arrow_lexer zero_token =
     Some (NoMatch arrow_lexer) \<and>
   source arrow_lexer \<noteq> Null \<and>
   lexer_next_token sample_memory (sample_program sample_memory) (Some arrow_lexer) =
     Some (Ret (\<lparr>kind = 1, lexeme = Ptr (Alloc 1) 0, tok_length = 1,
                 tok_filename = Ptr (Literal ''arrow.txt'') 0, tok_line = 1, tok_column = 1,
                 tok_flags = 0\<rparr>,
                Some (arrow_lexer\<lparr>position := 1, column := 2\<rparr>))) \<and>
   within_source (arrow_lexer\<lparr>position := 1, column := 2\<rparr>)
     \<lparr>kind = 1, lexeme = Ptr (Alloc 1) 0, tok_length = 1,
      tok_filename = Ptr (Literal ''arrow.txt'') 0, tok_line = 1, tok_column = 1,
      tok_flags = 0\<rparr>"
proof -
  let ?P = "sample_program sample_memory"
  let ?t = "\<lparr>kind = 1, lexeme = Ptr (Alloc 1) 0, tok_length = 1,
             tok_filename = Ptr (Literal ''arrow.txt'') 0, tok_line = 1, tok_column = 1,
             tok_flags = 0\<rparr>"
  let ?l' = "arrow_lexer\<lparr>position := 1, column := 2\<rparr>"
  have 1: "\<not> lexer_is_eof (Some arrow_lexer)"
    by code_simp
  have 2: "scan_rules ?P False (position arrow_lexer, line arrow_lexer, column arrow_lexer) 0
             arrow_lexer zero_token = Some (NoMatch arrow_lexer)"
    by code_simp
  have 3: "source arrow_lexer \<noteq> Null"
    by code_simp
  have 4: "lexer_next_token sample_memory ?P (Some arrow_lexer) = Some (Ret (?t, Some ?l'))"
    by code_simp
  have 5: "position arrow_lexer = 0" "line arrow_lexer = 1" "column arrow_lexer = 1"
    by code_simp+
  from 1 2 have "lexer_is_eof (Some arrow_lexer) \<and> arrow_lexer = arrow_lexer \<or>
      \<not> lexer_is_eof (Some arrow_lexer) \<and>
      scan_rules ?P False (position arrow_lexer, line arrow_lexer, column arrow_lexer) 0
        arrow_lexer zero_token = Some (NoMatch arrow_lexer)"
    by (intro disjI2 conjI)
  from synthesized_token_reference [OF 4 this 3] 1
  have 6: "within_source ?l' ?t"
    by simp
  from 2 5 have 7: "scan_rules ?P False (0, 1, 1) 0 arrow_lexer zero_token =
                      Some (NoMatch arrow_lexer)"
    by (simp only:)
  from 1 7 3 4 6 show ?thesis
    by (intro conjI)
qed

subsection \<open>Lookahead\<close>

lemma lexer_peek_no_wrap:
  assumes "unat (position l) + unat k < 2 ^ 64"
  shows "lexer_peek mem (Some l) k =
           (if unat (position l) + unat k < unat (source_length l)
            then (case load mem (ptr_add (source l) (position l + k)) of
                    None \<Rightarrow> Undefined
                  | Some c \<Rightarrow> Ret c)
            else Ret 0) \<and>
         unat (position l + k) = unat (position l) + unat k"
proof -
  from assms have sum: "unat (position l + k) = unat (position l) + unat k"
    by (simp add: unat_add_lem [THEN iffD1])
  then show ?thesis
    by (simp add: lexer_peek_def word_le_nat_alt not_le)
qed

text \<open>
  Claim C7 says that \<open>lexer_peek\<close> returns the byte \<open>k\<close> positions ahead of the cursor when
  that byte is in the buffer and 0 otherwise, for every \<open>k\<close>, also when position plus \<open>k\<close>
  is more than a \<open>size_t\<close> holds. The code adds position and \<open>k\<close> modulo \<open>2 ^ 64\<close> before it
  compares with the length. With the cursor at byte 2 of \<open>"-xy"\<close> and \<open>k = 2 ^ 64 - 1\<close> the
  byte \<open>k\<close> positions ahead is far outside the three bytes of the buffer, and \<open>lexer_peek\<close>
  returns the byte \<open>x\<close> at index 1, behind the cursor, instead of 0.
\<close>

theorem lexer_peek_wraps_around:
  "unat (source_length (arrow_lexer\<lparr>position := 2\<rparr>)) \<le>
     unat (position (arrow_lexer\<lparr>position := 2\<rparr>)) + unat (18446744073709551615 :: size_t) \<and>
   lexer_peek sample_memory (Some (arrow_lexer\<lparr>position := 2\<rparr>)) 18446744073709551615 =
     Ret 120"
proof
  show "unat (source_length (arrow_lexer\<lparr>position := 2\<rparr>)) \<le>
          unat (position (arrow_lexer\<lparr>position := 2\<rparr>)) + unat (18446744073709551615 :: size_t)"
    by (simp add: arrow_lexer_def)
  show "lexer_peek sample_memory (Some (arrow_lexer\<lparr>position := 2\<rparr>)) 18446744073709551615 =
          Ret 120"
    by code_simp
qed

subsection \<open>Reset\<close>

text \<open>
  Claim C8. With a source that is not null, \<open>lexer_reset\<close> sets the position to 0, the
  line to 1 and the column to 1 and binds the new source, length and file name; a length of
  0 stands for the length that \<open>strlen\<close> finds. The rule table, the user context, the flags
  and the error message stay as they are. With a null source \<open>lexer_reset\<close> changes nothing.
\<close>

theorem lexer_reset_rebinds:
  assumes "src \<noteq> Null"
    and "(if len = 0 then strlen mem src else Ret len) = Ret n"
  shows "lexer_reset mem (Some l) src len fname =
           Ret (Some \<lparr>source = src, source_length = n, position = 0, line = 1, column = 1,
                      filename = fname, rules = rules l, error_message = error_message l,
                      user_context = user_context l, flags = flags l\<rparr>) \<and>
         lexer_reset mem (Some l) Null len fname = Ret (Some l)"
  using assms by (simp add: lexer_reset_def)

theorem lexer_reset_rebinds_witness:
  "Ptr (Alloc 0) 0 \<noteq> Null \<and>
   (if (0 :: size_t) = 0 then strlen sample_memory (Ptr (Alloc 0) 0) else Ret 0) = Ret 3 \<and>
   lexer_reset sample_memory (Some (arrow_lexer\<lparr>position := 2, column := 3\<rparr>))
     (Ptr (Alloc 0) 0) 0 (Ptr (Literal ''blank.txt'') 0) =
     Ret (Some \<lparr>source = Ptr (Alloc 0) 0, source_length = 3, position = 0, line = 1,
                column = 1, filename = Ptr (Literal ''blank.txt'') 0,
                rules = rules arrow_lexer, error_message = Null, user_context = Null,
                flags = 0\<rparr>) \<and>
   lexer_reset sample_memory (Some (arrow_lexer\<lparr>position := 2, column := 3\<rparr>))
     Null 0 (Ptr (Literal ''blank.txt'') 0) =
     Ret (Some (arrow_lexer\<lparr>position := 2, column := 3\<rparr>))"
proof -
  let ?l = "arrow_lexer\<lparr>position := 2, column := 3\<rparr>"
  have 1: "Ptr (Alloc 0) 0 \<noteq> Null"
    by simp
  have 2: "(if (0 :: size_t) = 0 then strlen sample_memory (Ptr (Alloc 0) 0) else Ret 0) = Ret 3"
    by code_simp
  have 3: "rules ?l = rules arrow_lexer" "error_message ?l = Null" "user_context ?l = Null"
    "flags ?l = 0"
    by code_simp+
  from lexer_reset_rebinds [OF 1 2, of ?l "Ptr (Literal ''blank.txt'') 0"] 3
  have 4: "lexer_reset sample_memory (Some ?l) (Ptr (Alloc 0) 0) 0 (Ptr (Literal ''blank.txt'') 0) =
             Ret (Some \<lparr>source = Ptr (Alloc 0) 0, source_length = 3, position = 0, line = 1,
                column = 1, filename = Ptr (Literal ''blank.txt'') 0,
                rules = rules arrow_lexer, error_message = Null, user_context = Null,
                flags = 0\<rparr>)"
    and 5: "lexer_reset sample_memory (Some ?l) Null 0 (Ptr (Literal ''blank.txt'') 0) =
              Ret (Some ?l)"
    by simp_all
  from 1 2 4 5 show ?thesis
    by (intro conjI)
qed

subsection \<open>The working token across attempts\<close>

text \<open>
  Claim C9. The working token is set up once in a call of \<open>lexer_next_token\<close>. Before a
  rule attempt its line, column and lexeme start are set to the attempt origin; its kind,
  length, flags and file name are what the earlier attempts left, also after an ignorable
  token has been dropped. So when a token with the Ignore flag has been dropped and, in the
  pass that follows, a matcher succeeds without writing the flags (its rule has no action,
  and the failed attempts before it left the flags alone as well), the new token still
  carries the Ignore flag and is dropped too: when every rule fails behind it, the call
  returns the EOF or ERROR token made there, and the token of that matcher is never
  returned.
\<close>

theorem ignore_flag_survives_discard:
  assumes "\<not> lexer_is_eof (Some l)"
    and "failed_pass P (position l, line l, column l) i l zero_token = Some (l1, tok1)"
    and "i < length (rules l1)"
    and "matcher_fn P (matcher (rules l1 ! i)) l1
           (tok1\<lparr>tok_line := line l, tok_column := column l,
                 lexeme := ptr_add (source l1) (position l)\<rparr>) = (True, l2, tok2)"
    and "run_action P (rules l1 ! i) l2 tok2 = (l3, tok3)"
    and "ignorable l3 tok3"
    and "failed_pass P (position l3, line l3, column l3) j l3 tok3 = Some (l4, tok4)"
    and "tok_flags tok4 = tok_flags tok3"
    and "j < length (rules l4)"
    and "matcher_fn P (matcher (rules l4 ! j)) l4
           (tok4\<lparr>tok_line := line l3, tok_column := column l3,
                 lexeme := ptr_add (source l4) (position l3)\<rparr>) = (True, l5, tok5)"
    and "tok_flags tok5 = tok_flags tok4"
    and "action (rules l4 ! j) = None"
    and "flags l5 AND LEXER_FLAG_KEEP_IGNORABLE = 0"
    and "failed_pass P (position l5, line l5, column l5) k l5 tok5 = Some (l6, tok6)"
    and "length (rules l6) \<le> k"
  shows "tok_line (token_at_origin tok4 l4 (position l3, line l3, column l3)) = line l3 \<and>
         tok_column (token_at_origin tok4 l4 (position l3, line l3, column l3)) = column l3 \<and>
         lexeme (token_at_origin tok4 l4 (position l3, line l3, column l3)) =
           ptr_add (source l4) (position l3) \<and>
         kind (token_at_origin tok4 l4 (position l3, line l3, column l3)) = kind tok4 \<and>
         tok_length (token_at_origin tok4 l4 (position l3, line l3, column l3)) =
           tok_length tok4 \<and>
         tok_flags (token_at_origin tok4 l4 (position l3, line l3, column l3)) =
           tok_flags tok4 \<and>
         tok_filename (token_at_origin tok4 l4 (position l3, line l3, column l3)) =
           tok_filename tok4 \<and>
         tok_flags tok5 AND TOKEN_FLAG_IGNORE \<noteq> 0 \<and>
         lexer_next_token mem P (Some l) =
           (if lexer_is_eof (Some l6)
            then Some (Ret (\<lparr>kind = INTERNAL_TOKEN_EOF, lexeme = Ptr (Literal ''EOF'') 0,
                             tok_length = 0, tok_filename = filename l6, tok_line = line l6,
                             tok_column = column l6, tok_flags = 0\<rparr>, Some l6))
            else (case lexer_advance mem (Some l6) of
                    Undefined \<Rightarrow> Some Undefined
                  | Ret l7 \<Rightarrow>
                      Some (Ret (\<lparr>kind = INTERNAL_TOKEN_ERROR,
                                  lexeme = ptr_add (source l6) (position l6), tok_length = 1,
                                  tok_filename = filename l6, tok_line = line l6,
                                  tok_column = column l6, tok_flags = 0\<rparr>, l7))))"
proof -
  from scan_rules_first_success [OF assms(2-5)] assms(6)
  have first: "scan_rules P False (position l, line l, column l) 0 l zero_token =
                 scan_rules P False (position l3, line l3, column l3) 0 l3 tok3"
    by simp
  from assms(6,8,11) have flag: "tok_flags tok5 AND TOKEN_FLAG_IGNORE \<noteq> 0"
    by (simp add: ignorable_def)
  with assms(13) have drop: "ignorable l5 tok5"
    by (simp add: ignorable_def)
  from assms(12) have "run_action P (rules l4 ! j) l5 tok5 = (l5, tok5)"
    by (simp add: run_action_def)
  from scan_rules_first_success [OF assms(7,9,10) this] drop
  have second: "scan_rules P False (position l3, line l3, column l3) 0 l3 tok3 =
                  scan_rules P False (position l5, line l5, column l5) 0 l5 tok5"
    by simp
  from scan_rules_all_failed [OF assms(14,15)] first second
  have "scan_rules P False (position l, line l, column l) 0 l zero_token = Some (NoMatch l6)"
    by simp
  from next_token_no_match [OF assms(1) this] flag show ?thesis
    by (simp add: token_at_origin_eq)
qed

theorem ignore_flag_survives_discard_witness:
  "\<not> lexer_is_eof (Some (blank_lexer\<lparr>position := 1, column := 2\<rparr>)) \<and>
   ignorable (blank_lexer\<lparr>position := 2, column := 3\<rparr>)
     (zero_token\<lparr>kind := 2, lexeme := Ptr (Alloc 0) 1, tok_length := 1, tok_line := 1,
                  tok_column := 2, tok_flags := TOKEN_FLAG_IGNORE\<rparr>) \<and>
   matcher_fn (sample_program sample_memory)
     (matcher (rules (blank_lexer\<lparr>position := 2, column := 3\<rparr>) ! 1))
     (blank_lexer\<lparr>position := 2, column := 3\<rparr>)
     (zero_token\<lparr>kind := 2, lexeme := Ptr (Alloc 0) 2, tok_length := 1, tok_line := 1,
                  tok_column := 3, tok_flags := TOKEN_FLAG_IGNORE\<rparr>) =
     (True, blank_lexer\<lparr>position := 3, column := 4\<rparr>,
      zero_token\<lparr>kind := 3, lexeme := Ptr (Alloc 0) 2, tok_length := 1, tok_line := 1,
                  tok_column := 3, tok_flags := TOKEN_FLAG_IGNORE\<rparr>) \<and>
   lexer_next_token sample_memory (sample_program sample_memory)
     (Some (blank_lexer\<lparr>position := 1, column := 2\<rparr>)) =
     Some (Ret (\<lparr>kind = 0, lexeme = Ptr (Literal ''EOF'') 0, tok_length = 0,
                 tok_filename = Ptr (Literal ''blank.txt'') 0, tok_line = 1, tok_column = 4,
                 tok_flags = 0\<rparr>,
                Some (blank_lexer\<lparr>position := 3, column := 4\<rparr>)))"
proof -
  let ?P = "sample_program sample_memory"
  let ?l = "blank_lexer\<lparr>position := 1, column := 2\<rparr>"
  let ?l3 = "blank_lexer\<lparr>position := 2, column := 3\<rparr>"
  let ?l5 = "blank_lexer\<lparr>position := 3, column := 4\<rparr>"
  let ?t2 = "zero_token\<lparr>kind := 2, lexeme := Ptr (Alloc 0) 1, tok_length := 1, tok_line := 1,
                        tok_column := 2\<rparr>"
  let ?t3 = "zero_token\<lparr>kind := 2, lexeme := Ptr (Alloc 0) 1, tok_length := 1, tok_line := 1,
                        tok_column := 2, tok_flags := TOKEN_FLAG_IGNORE\<rparr>"
  let ?t4 = "zero_token\<lparr>kind := 2, lexeme := Ptr (Alloc 0) 2, tok_length := 1, tok_line := 1,
                        tok_column := 3, tok_flags := TOKEN_FLAG_IGNORE\<rparr>"
  let ?t5 = "zero_token\<lparr>kind := 3, lexeme := Ptr (Alloc 0) 2, tok_length := 1, tok_line := 1,
                        tok_column := 3, tok_flags := TOKEN_FLAG_IGNORE\<rparr>"
  let ?t6 = "zero_token\<lparr>kind := 3, lexeme := Ptr (Alloc 0) 3, tok_length := 1, tok_line := 1,
                        tok_column := 4, tok_flags := TOKEN_FLAG_IGNORE\<rparr>"
  let ?e = "\<lparr>kind = 0, lexeme = Ptr (Literal ''EOF'') 0, tok_length = 0,
             tok_filename = Ptr (Literal ''blank.txt'') 0, tok_line = 1, tok_column = 4,
             tok_flags = 0\<rparr>"
  have 1: "\<not> lexer_is_eof (Some ?l)"
    by code_simp
  have 2: "failed_pass ?P (position ?l, line ?l, column ?l) 0 ?l zero_token =
             Some (?l, zero_token)"
    by simp
  have 3: "0 < length (rules ?l)"
    by code_simp
  have 4: "matcher_fn ?P (matcher (rules ?l ! 0)) ?l
             (zero_token\<lparr>tok_line := line ?l, tok_column := column ?l,
                          lexeme := ptr_add (source ?l) (position ?l)\<rparr>) = (True, ?l3, ?t2)"
    by code_simp
  have 5: "run_action ?P (rules ?l ! 0) ?l3 ?t2 = (?l3, ?t3)"
    by code_simp
  have 6: "ignorable ?l3 ?t3"
    by code_simp
  have 7: "failed_pass ?P (position ?l3, line ?l3, column ?l3) 1 ?l3 ?t3 = Some (?l3, ?t4)"
    by code_simp
  have 8: "tok_flags ?t4 = tok_flags ?t3"
    by code_simp
  have 9: "1 < length (rules ?l3)"
    by code_simp
  have m: "matcher_fn ?P (matcher (rules ?l3 ! 1)) ?l3 ?t4 = (True, ?l5, ?t5)"
    by code_simp
  have eq: "?t4\<lparr>tok_line := line ?l3, tok_column := column ?l3,
                  lexeme := ptr_add (source ?l3) (position ?l3)\<rparr> = ?t4"
    by code_simp
  from m eq
  have 10: "matcher_fn ?P (matcher (rules ?l3 ! 1)) ?l3
              (?t4\<lparr>tok_line := line ?l3, tok_column := column ?l3,
                    lexeme := ptr_add (source ?l3) (position ?l3)\<rparr>) = (True, ?l5, ?t5)"
    by (simp only:)
  have 11: "tok_flags ?t5 = tok_flags ?t4"
    by code_simp
  have 12: "action (rules ?l3 ! 1) = None"
    by code_simp
  have 13: "flags ?l5 AND LEXER_FLAG_KEEP_IGNORABLE = 0"
    by code_simp
  have 14: "failed_pass ?P (position ?l5, line ?l5, column ?l5) 2 ?l5 ?t5 = Some (?l5, ?t6)"
    by code_simp
  have 15: "length (rules ?l5) \<le> 2"
    by code_simp
  have 16: "(if lexer_is_eof (Some ?l5)
             then Some (Ret (\<lparr>kind = INTERNAL_TOKEN_EOF, lexeme = Ptr (Literal ''EOF'') 0,
                              tok_length = 0, tok_filename = filename ?l5, tok_line = line ?l5,
                              tok_column = column ?l5, tok_flags = 0\<rparr>, Some ?l5))
             else (case lexer_advance sample_memory (Some ?l5) of
                     Undefined \<Rightarrow> Some Undefined
                   | Ret l7 \<Rightarrow>
                       Some (Ret (\<lparr>kind = INTERNAL_TOKEN_ERROR,
                                   lexeme = ptr_add (source ?l5) (position ?l5), tok_length = 1,
                                   tok_filename = filename ?l5, tok_line = line ?l5,
                                   tok_column = column ?l5, tok_flags = 0\<rparr>, l7)))) =
            Some (Ret (?e, Some ?l5))"
    by code_simp
  from ignore_flag_survives_discard
         [where mem = sample_memory, OF 1 2 3 4 5 6 7 8 9 10 11 12 13 14 15]
  have "lexer_next_token sample_memory ?P (Some ?l) =
          (if lexer_is_eof (Some ?l5)
             then Some (Ret (\<lparr>kind = INTERNAL_TOKEN_EOF, lexeme = Ptr (Literal ''EOF'') 0,
                              tok_length = 0, tok_filename = filename ?l5, tok_line = line ?l5,
                              tok_column = column ?l5, tok_flags = 0\<rparr>, Some ?l5))
             else (case lexer_advance sample_memory (Some ?l5) of
                     Undefined \<Rightarrow> Some Undefined
                   | Ret l7 \<Rightarrow>
                       Some (Ret (\<lparr>kind = INTERNAL_TOKEN_ERROR,
                                   lexeme = ptr_add (source ?l5) (position ?l5), tok_length = 1,
                                   tok_filename = filename ?l5, tok_line = line ?l5,
                                   tok_column = column ?l5, tok_flags = 0\<rparr>, l7))))"
    by blast
  with 16 have result: "lexer_next_token sample_memory ?P (Some ?l) = Some (Ret (?e, Some ?l5))"
    by (simp only:)
  from 1 6 m result show ?thesis
    by (intro conjI)
qed

end
